theory Spec2Isabelle
  imports Main "HOL-Library.AList"
begin

section \<open>The real-time layer of src/backend/routes.ts\<close>

text \<open>
  The theory embeds the WebSocket part of \<^verbatim>\<open>registerRoutes\<close>: the module-level map
  \<^verbatim>\<open>connectedClients\<close>, the \<^verbatim>\<open>message\<close> and \<^verbatim>\<open>close\<close> handlers installed by
  \<^verbatim>\<open>wss.on('connection')\<close>, and \<^verbatim>\<open>broadcastToClients\<close>.
\<close>

subsection \<open>JSON values\<close>

text \<open>
  \<^verbatim>\<open>data\<close> in the handler has type \<^verbatim>\<open>any\<close>: it is whatever \<^verbatim>\<open>JSON.parse\<close> returned.
  Numbers are only ever tested for being zero here, so an integer stands for them.
\<close>

datatype json =
    JNull
  | JBool bool
  | JNum int
  | JStr string
  | JArr "json list"
  | JObj "(string \<times> json) list"

text \<open>
  A property read \<^verbatim>\<open>data.k\<close> on a value that is not \<^verbatim>\<open>null\<close>; \<open>None\<close> is
  \<^verbatim>\<open>undefined\<close>. The handler reads \<^verbatim>\<open>type\<close>, \<^verbatim>\<open>token\<close>, \<^verbatim>\<open>receiverId\<close>,
  \<^verbatim>\<open>conversationId\<close>, \<^verbatim>\<open>content\<close> and \<^verbatim>\<open>messageType\<close>; no primitive or array has
  one of those, so only an object answers. A read on \<^verbatim>\<open>null\<close> throws a TypeError,
  which is a branch of \<open>onMessage\<close> below.
\<close>

fun jprop :: "json \<Rightarrow> string \<Rightarrow> json option" where
  "jprop (JObj kvs) k = map_of kvs k"
| "jprop _ k = None"

text \<open>JavaScript truthiness of a value that may be \<^verbatim>\<open>undefined\<close>.\<close>

fun truthy :: "json option \<Rightarrow> bool" where
  "truthy None = False"
| "truthy (Some JNull) = False"
| "truthy (Some (JBool b)) = b"
| "truthy (Some (JNum n)) = (n \<noteq> 0)"
| "truthy (Some (JStr s)) = (s \<noteq> [])"
| "truthy (Some (JArr xs)) = True"
| "truthy (Some (JObj kvs)) = True"

subsection \<open>Sockets, collaborators and state\<close>

type_synonym conn = nat

datatype ready_state = CONNECTING | OPEN | CLOSING | CLOSED

type_synonym object_id = string

text \<open>The object literal \<^verbatim>\<open>messageData\<close> handed to \<^verbatim>\<open>mongoService.createMessage\<close>.\<close>

record message_data =
  senderId :: object_id
  receiverId :: object_id
  conversationId :: "json option"
  content :: "json option"
  msgType :: json
  createdAt :: nat

text \<open>
  What the handlers call outside this file. \<open>None\<close> is a thrown exception.
  \<^item> \<open>verifyAccessToken\<close>: \<^verbatim>\<open>new AuthenticationService().verifyAccessToken(data.token)\<close>,
    giving \<^verbatim>\<open>decoded.userId\<close> (a \<^verbatim>\<open>string\<close> by the type \<^verbatim>\<open>JWTPayload\<close>);
  \<^item> \<open>newObjectId\<close>: the constructor \<^verbatim>\<open>new ObjectId(x)\<close> of the mongodb driver;
  \<^item> \<open>createMessage\<close>: \<^verbatim>\<open>await mongoService.createMessage(messageData)\<close>, giving the
    stored document;
  \<^item> \<open>JSON_stringify\<close>: \<^verbatim>\<open>JSON.stringify\<close>;
  \<^item> \<open>dateNow\<close>: \<^verbatim>\<open>new Date()\<close>.
\<close>

record env =
  verifyAccessToken :: "json option \<Rightarrow> string option"
  newObjectId :: "json option \<Rightarrow> object_id option"
  createMessage :: "message_data \<Rightarrow> json option"
  JSON_stringify :: "json \<Rightarrow> string"
  dateNow :: nat

text \<open>
  \<^item> \<open>connectedClients\<close>: the \<^verbatim>\<open>Map<string, WebSocketClient>\<close>, as its entries in
    insertion order (the order \<^verbatim>\<open>forEach\<close> visits them);
  \<^item> \<open>userId\<close>: the field \<^verbatim>\<open>ws.userId\<close> of every socket object;
  \<^item> \<open>readyState\<close>: the field \<^verbatim>\<open>ws.readyState\<close>, which the transport changes;
  \<^item> \<open>sent\<close>: every call \<^verbatim>\<open>socket.send(payload)\<close> so far, in order;
  \<^item> \<open>stringified\<close>: the argument of every call of \<^verbatim>\<open>JSON.stringify\<close> so far;
  \<^item> \<open>createMessage_calls\<close>: the argument of every call of
    \<^verbatim>\<open>mongoService.createMessage\<close> so far, whether its promise was fulfilled or not;
  \<^item> \<open>awaiting\<close>: the runs of the message handler that are suspended at
    \<^verbatim>\<open>await mongoService.createMessage(messageData)\<close>, each with what its closure
    holds: \<^verbatim>\<open>ws\<close>, \<^verbatim>\<open>data\<close> and \<^verbatim>\<open>messageData\<close>.
\<close>

record state =
  connectedClients :: "(string \<times> conn) list"
  userId :: "conn \<Rightarrow> string option"
  readyState :: "conn \<Rightarrow> ready_state"
  sent :: "(conn \<times> string) list"
  stringified :: "json list"
  createMessage_calls :: "message_data list"
  awaiting :: "(conn \<times> json \<times> message_data) list"

definition init_state :: state where
  "init_state = \<lparr> connectedClients = [], userId = (\<lambda>c. None), readyState = (\<lambda>c. OPEN),
      sent = [], stringified = [], createMessage_calls = [], awaiting = [] \<rparr>"

text \<open>\<^verbatim>\<open>connectedClients.get(k)\<close> with \<^verbatim>\<open>k\<close> of type \<^verbatim>\<open>any\<close>: the keys are strings, and
  no other value is the same as a string.\<close>

fun clients_get :: "(string \<times> conn) list \<Rightarrow> json option \<Rightarrow> conn option" where
  "clients_get m (Some (JStr k)) = map_of m k"
| "clients_get m _ = None"

text \<open>\<^verbatim>\<open>socket.send(payload)\<close>, and \<^verbatim>\<open>socket.send(JSON.stringify(v))\<close>.\<close>

definition ws_send :: "conn \<Rightarrow> string \<Rightarrow> state \<Rightarrow> state" where
  "ws_send c payload s = s\<lparr> sent := sent s @ [(c, payload)] \<rparr>"

definition send_json :: "env \<Rightarrow> conn \<Rightarrow> json \<Rightarrow> state \<Rightarrow> state" where
  "send_json e c v s =
     ws_send c (JSON_stringify e v) (s\<lparr> stringified := stringified s @ [v] \<rparr>)"

subsection \<open>Outbound frames\<close>

definition authenticated_frame :: json where
  "authenticated_frame = JObj [(''type'', JStr ''authenticated''), (''success'', JBool True)]"

definition authentication_error_frame :: json where
  "authentication_error_frame =
     JObj [(''type'', JStr ''authentication_error''), (''message'', JStr ''Invalid token'')]"

definition new_message_frame :: "json \<Rightarrow> json" where
  "new_message_frame m = JObj [(''type'', JStr ''new_message''), (''data'', m)]"

definition message_sent_frame :: "json \<Rightarrow> json" where
  "message_sent_frame m = JObj [(''type'', JStr ''message_sent''), (''data'', m)]"

definition error_frame :: json where
  "error_frame = JObj [(''type'', JStr ''error''), (''message'', JStr ''Invalid message format'')]"

definition broadcast_frame :: "string \<Rightarrow> json \<Rightarrow> json" where
  "broadcast_frame ty d = JObj [(''type'', JStr ty), (''data'', d)]"

subsection \<open>The message handler\<close>

text \<open>\<^verbatim>\<open>ws.userId\<close> used as a condition: \<^verbatim>\<open>undefined\<close> and the empty string are falsy.\<close>

fun bound_user :: "string option \<Rightarrow> string option" where
  "bound_user None = None"
| "bound_user (Some u) = (if u = [] then None else Some u)"

text \<open>
  The branch \<^verbatim>\<open>data.type === 'authenticate'\<close>, with its own catch clause. The branch
  begins by awaiting the import of the authentication module and reads or writes
  nothing before that; the definition is the rest of the branch, which runs without
  interruption once the import has settled.
\<close>

definition on_authenticate :: "env \<Rightarrow> conn \<Rightarrow> json \<Rightarrow> state \<Rightarrow> state" where
  "on_authenticate e ws d s =
     (case verifyAccessToken e (jprop d ''token'') of
        Some uid \<Rightarrow>
          send_json e ws authenticated_frame
            (s\<lparr> userId := (userId s)(ws := Some uid),
                connectedClients := AList.update uid ws (connectedClients s) \<rparr>)
      | None \<Rightarrow> send_json e ws authentication_error_frame s)"

text \<open>
  The branch \<^verbatim>\<open>data.type === 'send_message' && ws.userId\<close>, up to its \<^verbatim>\<open>await\<close>. It
  builds \<^verbatim>\<open>messageData\<close> (either \<^verbatim>\<open>ObjectId\<close> constructor may throw), calls
  \<^verbatim>\<open>mongoService.createMessage\<close>, an async function, and is suspended on the promise.
  \<open>Threw\<close> carries the state at the point where an exception left the branch, which
  has no catch clause of its own; \<open>Suspended\<close> the state in which the run waits.
\<close>

datatype outcome = Threw state | Suspended state

definition messageData_of :: "env \<Rightarrow> object_id \<Rightarrow> object_id \<Rightarrow> json \<Rightarrow> message_data" where
  "messageData_of e sid rid d =
     \<lparr> senderId = sid, receiverId = rid,
       conversationId = jprop d ''conversationId'',
       content = jprop d ''content'',
       msgType = (if truthy (jprop d ''messageType'')
                  then the (jprop d ''messageType'') else JStr ''text''),
       createdAt = dateNow e \<rparr>"

definition on_send_message :: "env \<Rightarrow> conn \<Rightarrow> string \<Rightarrow> json \<Rightarrow> state \<Rightarrow> outcome" where
  "on_send_message e ws uid d s =
     (case newObjectId e (Some (JStr uid)) of
        None \<Rightarrow> Threw s
      | Some sid \<Rightarrow>
     (case newObjectId e (jprop d ''receiverId'') of
        None \<Rightarrow> Threw s
      | Some rid \<Rightarrow>
          let messageData = messageData_of e sid rid d
          in Suspended (s\<lparr> createMessage_calls := createMessage_calls s @ [messageData],
                            awaiting := awaiting s @ [(ws, d, messageData)] \<rparr>)))"

text \<open>
  The rest of that branch: the promise of the \<open>i\<close>-th suspended run settles. The
  store's answer is read from the collaborators of that moment, and the registry is
  read in the state of that moment, which other handlers may have changed since the
  frame arrived. A rejected promise is thrown at the \<^verbatim>\<open>await\<close> and lands in the outer
  catch clause.
\<close>

definition createMessage_settled :: "env \<Rightarrow> nat \<Rightarrow> state \<Rightarrow> state" where
  "createMessage_settled e i s =
     (if i < length (awaiting s) then
        (case awaiting s ! i of
           (ws, d, messageData) \<Rightarrow>
             let s1 = s\<lparr> awaiting := take i (awaiting s) @ drop (Suc i) (awaiting s) \<rparr>
             in (case createMessage e messageData of
                   None \<Rightarrow> send_json e ws error_frame s1
                 | Some message \<Rightarrow>
                     let s2 = (case clients_get (connectedClients s1) (jprop d ''receiverId'') of
                                 Some receiverWs \<Rightarrow>
                                   send_json e receiverWs (new_message_frame message) s1
                               | None \<Rightarrow> s1)
                     in send_json e ws (message_sent_frame message) s2))
      else s)"

text \<open>
  \<^verbatim>\<open>ws.on('message', ...)\<close>, as far as it runs when the frame arrives. The argument is
  the outcome of \<^verbatim>\<open>JSON.parse(message.toString())\<close>: \<open>None\<close> when it threw a
  SyntaxError.
\<close>

definition onMessage :: "env \<Rightarrow> conn \<Rightarrow> json option \<Rightarrow> state \<Rightarrow> state" where
  "onMessage e ws parsed s =
     (case parsed of
        None \<Rightarrow> send_json e ws error_frame s
      | Some JNull \<Rightarrow> send_json e ws error_frame s
      | Some d \<Rightarrow>
          if jprop d ''type'' = Some (JStr ''authenticate'') then on_authenticate e ws d s
          else if jprop d ''type'' = Some (JStr ''send_message'') \<and> bound_user (userId s ws) \<noteq> None
          then (case on_send_message e ws (the (userId s ws)) d s of
                  Threw s' \<Rightarrow> send_json e ws error_frame s'
                | Suspended s' \<Rightarrow> s')
          else s)"

subsection \<open>The close handler\<close>

definition onClose :: "conn \<Rightarrow> state \<Rightarrow> state" where
  "onClose ws s =
     (case bound_user (userId s ws) of
        Some uid \<Rightarrow> s\<lparr> connectedClients := AList.delete uid (connectedClients s) \<rparr>
      | None \<Rightarrow> s)"

subsection \<open>Broadcast\<close>

definition broadcastToClients :: "env \<Rightarrow> string \<Rightarrow> json \<Rightarrow> state \<Rightarrow> state" where
  "broadcastToClients e ty d s =
     (let message = JSON_stringify e (broadcast_frame ty d);
          s0 = s\<lparr> stringified := stringified s @ [broadcast_frame ty d] \<rparr>
      in fold (\<lambda>entry acc. if readyState acc (snd entry) = OPEN
                            then ws_send (snd entry) message acc else acc)
              (connectedClients s0) s0)"

subsection \<open>Runs of the server\<close>

text \<open>
  What can happen to the server: a frame arrives on a socket, the promise of a
  suspended run of the message handler settles, the transport moves a socket to
  another ready state, a socket closes (the transport marks it closed and emits
  \<^verbatim>\<open>close\<close>), an HTTP handler broadcasts. Each event comes with the collaborators as
  they answer at that moment.
\<close>

datatype event =
    Message conn "json option"
  | Settled nat
  | Transport conn ready_state
  | Close conn
  | Broadcast string json

fun step :: "env \<Rightarrow> event \<Rightarrow> state \<Rightarrow> state" where
  "step e (Message c parsed) s = onMessage e c parsed s"
| "step e (Settled i) s = createMessage_settled e i s"
| "step e (Transport c r) s = s\<lparr> readyState := (readyState s)(c := r) \<rparr>"
| "step e (Close c) s = onClose c (s\<lparr> readyState := (readyState s)(c := CLOSED) \<rparr>)"
| "step e (Broadcast ty d) s = broadcastToClients e ty d s"

fun run :: "(env \<times> event) list \<Rightarrow> state \<Rightarrow> state" where
  "run [] s = s"
| "run (x # xs) s = run xs (step (fst x) (snd x) s)"

text \<open>
  A frame on socket \<open>c\<close> that authenticates it: an \<^verbatim>\<open>authenticate\<close> frame whose token
  the verifier accepts.
\<close>

fun authenticates :: "conn \<Rightarrow> env \<times> event \<Rightarrow> bool" where
  "authenticates c (e, Message c' (Some d)) =
     (c' = c \<and> jprop d ''type'' = Some (JStr ''authenticate'')
      \<and> verifyAccessToken e (jprop d ''token'') \<noteq> None)"
| "authenticates c (e, Message c' None) = False"
| "authenticates c (e, Settled i) = False"
| "authenticates c (e, Transport c' r) = False"
| "authenticates c (e, Close c') = False"
| "authenticates c (e, Broadcast ty d) = False"

subsection \<open>Concrete collaborators and frames\<close>

text \<open>
  A serializer that writes a value as \<^verbatim>\<open>JSON.stringify\<close> does for text without control
  characters: no white space, members in order, the quotation mark and the backslash
  escaped.
\<close>

function nat_text :: "nat \<Rightarrow> string" where
  "nat_text n = (if n < 10 then [''0123456789'' ! n]
                 else nat_text (n div 10) @ [''0123456789'' ! (n mod 10)])"
  by pat_completeness auto
termination
  by (relation "measure id") auto

definition int_text :: "int \<Rightarrow> string" where
  "int_text i = (if i < 0 then CHR ''-'' # nat_text (nat (- i)) else nat_text (nat i))"

fun escape :: "string \<Rightarrow> string" where
  "escape [] = []"
| "escape (c # cs) =
     (if c = CHR 0x22 \<or> c = CHR 0x5C then CHR 0x5C # c # escape cs else c # escape cs)"

definition quoted :: "string \<Rightarrow> string" where
  "quoted s = CHR 0x22 # escape s @ [CHR 0x22]"

fun commas :: "string list \<Rightarrow> string" where
  "commas [] = []"
| "commas [x] = x"
| "commas (x # y # zs) = x @ CHR '','' # commas (y # zs)"

fun json_text :: "json \<Rightarrow> string" where
  "json_text JNull = ''null''"
| "json_text (JBool b) = (if b then ''true'' else ''false'')"
| "json_text (JNum n) = int_text n"
| "json_text (JStr s) = quoted s"
| "json_text (JArr xs) = CHR ''['' # commas (map json_text xs) @ '']''"
| "json_text (JObj kvs) =
     CHR ''{'' # commas (map (\<lambda>kv. quoted (fst kv) @ CHR '':'' # json_text (snd kv)) kvs) @ ''}''"

text \<open>
  Two user identities as the token issuer writes them (\<^verbatim>\<open>user._id.toString()\<close>, 24
  hexadecimal digits), a verifier that knows one token for each, a store that
  accepts every message, and the frames a client would send.
\<close>

definition alice :: string where
  "alice = ''507f1f77bcf86cd799439011''"

definition bob :: string where
  "bob = ''507f191e810c19729de860ea''"

definition example_env :: env where
  "example_env =
     \<lparr> verifyAccessToken = (\<lambda>t. if t = Some (JStr ''token-alice'') then Some alice
                                else if t = Some (JStr ''token-bob'') then Some bob
                                else None),
       newObjectId = (\<lambda>v. case v of
                            None \<Rightarrow> Some ''65a1b2c3d4e5f60718293a4b''
                          | Some (JStr x) \<Rightarrow> if length x = 24 then Some x else None
                          | Some _ \<Rightarrow> None),
       createMessage = (\<lambda>md. Some (JObj [(''_id'', JStr ''65a1b2c3d4e5f60718293a4c''),
                                           (''senderId'', JStr (senderId md)),
                                           (''receiverId'', JStr (receiverId md)),
                                           (''content'', case content md of Some v \<Rightarrow> v | None \<Rightarrow> JNull)])),
       JSON_stringify = json_text,
       dateNow = 0 \<rparr>"

definition authenticate_frame :: "string \<Rightarrow> json" where
  "authenticate_frame tok = JObj [(''type'', JStr ''authenticate''), (''token'', JStr tok)]"

definition send_message_frame :: "string \<Rightarrow> string \<Rightarrow> json" where
  "send_message_frame rcv txt =
     JObj [(''type'', JStr ''send_message''), (''receiverId'', JStr rcv),
           (''conversationId'', JStr ''conv-1''), (''content'', JStr txt)]"

definition typing_frame :: "string \<Rightarrow> string \<Rightarrow> json" where
  "typing_frame ty target = JObj [(''type'', JStr ty), (''targetUserId'', JStr target)]"

text \<open>A store whose promise is rejected.\<close>

definition failing_store :: env where
  "failing_store = example_env\<lparr> createMessage := (\<lambda>md. None) \<rparr>"

text \<open>Alice authenticated on socket 0 and Bob on socket 1, nothing else so far.\<close>

definition two_users :: state where
  "two_users =
     run [(example_env, Message 0 (Some (authenticate_frame ''token-alice''))),
          (example_env, Message 1 (Some (authenticate_frame ''token-bob'')))] init_state"

text \<open>
  Alice authenticated on socket 0 and sent a message for Bob, whose promise has not
  settled yet; meanwhile Bob authenticated on socket 1.
\<close>

definition bob_joins_late :: state where
  "bob_joins_late =
     run [(example_env, Message 0 (Some (authenticate_frame ''token-alice''))),
          (example_env, Message 0 (Some (send_message_frame bob ''hi''))),
          (example_env, Message 1 (Some (authenticate_frame ''token-bob'')))] init_state"

text \<open>
  Alice authenticated on socket 0 and then on socket 1; after that socket 1
  authenticated as Bob. The entry of Alice holds socket 1.
\<close>

definition alice_moved :: state where
  "alice_moved =
     run [(example_env, Message 0 (Some (authenticate_frame ''token-alice''))),
          (example_env, Message 1 (Some (authenticate_frame ''token-alice''))),
          (example_env, Message 1 (Some (authenticate_frame ''token-bob'')))] init_state"

section \<open>Properties\<close>

subsection \<open>What each handler touches\<close>

lemma send_json_fields:
  "connectedClients (send_json e c v s) = connectedClients s"
  "userId (send_json e c v s) = userId s"
  "readyState (send_json e c v s) = readyState s"
  "createMessage_calls (send_json e c v s) = createMessage_calls s"
  "sent (send_json e c v s) = sent s @ [(c, JSON_stringify e v)]"
  "stringified (send_json e c v s) = stringified s @ [v]"
  "awaiting (send_json e c v s) = awaiting s"
  by (simp_all add: send_json_def ws_send_def)

lemma onMessage_ignored:
  assumes "d \<noteq> JNull"
    and "jprop d ''type'' \<noteq> Some (JStr ''authenticate'')"
    and "jprop d ''type'' = Some (JStr ''send_message'') \<longrightarrow> bound_user (userId s c) = None"
  shows "onMessage e c (Some d) s = s"
  using assms by (cases d) (auto simp: onMessage_def)

lemma onMessage_authenticate:
  assumes "jprop d ''type'' = Some (JStr ''authenticate'')"
  shows "onMessage e c (Some d) s = on_authenticate e c d s"
  using assms by (cases d) (auto simp: onMessage_def)

lemma on_authenticate_accepted:
  assumes "verifyAccessToken e (jprop d ''token'') = Some u"
  shows "connectedClients (on_authenticate e c d s) = AList.update u c (connectedClients s)"
    and "userId (on_authenticate e c d s) = (userId s)(c := Some u)"
    and "readyState (on_authenticate e c d s) = readyState s"
  using assms by (simp_all add: on_authenticate_def send_json_fields)

lemma on_authenticate_refused:
  assumes "verifyAccessToken e (jprop d ''token'') = None"
  shows "on_authenticate e c d s = send_json e c authentication_error_frame s"
  using assms by (simp add: on_authenticate_def)

lemma on_send_message_keeps:
  assumes "on_send_message e c u d s = Suspended s' \<or> on_send_message e c u d s = Threw s'"
  shows "connectedClients s' = connectedClients s \<and> userId s' = userId s \<and> readyState s' = readyState s"
  using assms by (auto simp: on_send_message_def Let_def send_json_fields split: option.splits)

lemma onMessage_keeps:
  assumes "\<not> authenticates c (e, Message c p)"
  shows "connectedClients (onMessage e c p s) = connectedClients s \<and> userId (onMessage e c p s) = userId s"
proof (cases p)
  case None
  then show ?thesis by (simp add: onMessage_def send_json_fields)
next
  case (Some d)
  show ?thesis
  proof (cases "jprop d ''type'' = Some (JStr ''authenticate'')")
    case True
    with assms Some have "verifyAccessToken e (jprop d ''token'') = None" by simp
    with True Some show ?thesis
      by (simp add: onMessage_authenticate on_authenticate_refused send_json_fields)
  next
    case False
    with Some show ?thesis
      by (cases d; cases "on_send_message e c (the (userId s c)) d s")
         (auto simp: onMessage_def send_json_fields dest: on_send_message_keeps[OF disjI1] on_send_message_keeps[OF disjI2])
  qed
qed

lemma onMessage_distinct:
  assumes "distinct (map fst (connectedClients s))"
  shows "distinct (map fst (connectedClients (onMessage e c p s)))"
proof (cases "authenticates c (e, Message c p)")
  case True
  then obtain d u where "p = Some d" "jprop d ''type'' = Some (JStr ''authenticate'')"
      "verifyAccessToken e (jprop d ''token'') = Some u"
    by (cases p) auto
  with assms show ?thesis
    by (simp add: onMessage_authenticate on_authenticate_accepted distinct_update)
next
  case False
  with assms show ?thesis by (simp add: onMessage_keeps)
qed

lemma fold_push:
  "fold (\<lambda>entry acc. if readyState acc (snd entry) = OPEN
                        then ws_send (snd entry) message acc else acc) xs s
   = s\<lparr> sent := sent s @ map (\<lambda>entry. (snd entry, message))
                            (filter (\<lambda>entry. readyState s (snd entry) = OPEN) xs) \<rparr>"
  by (induction xs arbitrary: s) (simp_all add: ws_send_def)

lemma broadcast_keeps:
  "connectedClients (broadcastToClients e ty d s) = connectedClients s"
  "userId (broadcastToClients e ty d s) = userId s"
  by (simp_all add: broadcastToClients_def Let_def fold_push)

lemma settled_keeps:
  "connectedClients (createMessage_settled e i s) = connectedClients s"
  "userId (createMessage_settled e i s) = userId s"
  by (simp_all add: createMessage_settled_def Let_def send_json_fields
        split: prod.splits option.splits)

lemma step_distinct:
  assumes "distinct (map fst (connectedClients s))"
  shows "distinct (map fst (connectedClients (step e ev s)))"
  using assms
  by (cases ev)
     (auto simp: onMessage_distinct broadcast_keeps settled_keeps onClose_def distinct_delete
           split: option.splits)

lemma run_distinct:
  "distinct (map fst (connectedClients s)) \<Longrightarrow> distinct (map fst (connectedClients (run evs s)))"
  by (induction evs arbitrary: s) (simp_all add: step_distinct)

lemma onMessage_other_socket:
  "c' \<noteq> c \<Longrightarrow> userId (onMessage e c' p s) c = userId s c"
proof (cases "authenticates c' (e, Message c' p)")
  case True
  assume "c' \<noteq> c"
  from True obtain d u where "p = Some d" "jprop d ''type'' = Some (JStr ''authenticate'')"
      "verifyAccessToken e (jprop d ''token'') = Some u"
    by (cases p) auto
  with \<open>c' \<noteq> c\<close> show ?thesis
    by (simp add: onMessage_authenticate on_authenticate_accepted)
next
  case False
  then show ?thesis by (simp add: onMessage_keeps)
qed

lemma step_unauthenticated:
  assumes "userId s c = None" and "\<not> authenticates c (e, ev)"
  shows "userId (step e ev s) c = None"
proof (cases ev)
  case (Message c' p)
  show ?thesis
  proof (cases "c' = c")
    case True
    with assms Message show ?thesis by (simp add: onMessage_keeps)
  next
    case False
    with assms Message show ?thesis by (simp add: onMessage_other_socket)
  qed
next
  case (Settled i)
  with assms show ?thesis by (simp add: settled_keeps)
next
  case (Transport c' r)
  with assms show ?thesis by simp
next
  case (Close c')
  with assms show ?thesis by (simp add: onClose_def split: option.splits)
next
  case (Broadcast ty d)
  with assms show ?thesis by (simp add: broadcast_keeps)
qed

lemma run_unauthenticated:
  assumes "userId s c = None" and "\<forall>x\<in>set evs. \<not> authenticates c x"
  shows "userId (run evs s) c = None"
  using assms
proof (induction evs arbitrary: s)
  case Nil
  then show ?case by simp
next
  case (Cons x evs)
  obtain e ev where x: "x = (e, ev)" by (cases x)
  with Cons.prems have "userId (step e ev s) c = None"
    by (simp add: step_unauthenticated)
  with Cons x show ?case by simp
qed

lemma onMessage_accepted:
  assumes "jprop d ''type'' = Some (JStr ''authenticate'')"
    and "verifyAccessToken e (jprop d ''token'') = Some u"
  shows "connectedClients (onMessage e c (Some d) s) = AList.update u c (connectedClients s)"
    and "userId (onMessage e c (Some d) s) = (userId s)(c := Some u)"
    and "readyState (onMessage e c (Some d) s) = readyState s"
  using assms by (simp_all add: onMessage_authenticate on_authenticate_accepted)

lemma onMessage_send_message:
  assumes "jprop d ''type'' = Some (JStr ''send_message'')"
    and "bound_user (userId s c) = Some u"
  shows "onMessage e c (Some d) s =
           (case on_send_message e c u d s of
              Threw s' \<Rightarrow> send_json e c error_frame s'
            | Suspended s' \<Rightarrow> s')"
proof -
  from assms(2) have "userId s c = Some u"
    by (cases "userId s c") (auto split: if_splits)
  with assms show ?thesis
    by (cases d) (auto simp: onMessage_def)
qed

lemma count_key_distinct:
  "distinct (map fst al) \<Longrightarrow> map_of al k = Some v \<Longrightarrow> length (filter (\<lambda>entry. fst entry = k) al) = 1"
  by (induction al) (auto simp: filter_empty_conv rev_image_eqI split: if_splits)

lemma two_users_fields:
  "connectedClients two_users = [(alice, 0), (bob, 1)]"
  "userId two_users = ((\<lambda>c. None)(0 := Some alice))(1 := Some bob)"
  "readyState two_users = (\<lambda>c. OPEN)"
  "createMessage_calls two_users = []"
  "awaiting two_users = []"
  by (simp_all add: two_users_def onMessage_authenticate on_authenticate_def send_json_fields
        authenticate_frame_def example_env_def init_state_def alice_def bob_def)

lemma bob_joins_late_fields:
  "connectedClients bob_joins_late = [(alice, 0), (bob, 1)]"
  "awaiting bob_joins_late =
     [(0, send_message_frame bob ''hi'',
       \<lparr> senderId = alice, receiverId = bob, conversationId = Some (JStr ''conv-1''),
         content = Some (JStr ''hi''), msgType = JStr ''text'', createdAt = 0 \<rparr>)]"
  by (simp_all add: bob_joins_late_def onMessage_def on_authenticate_def on_send_message_def
        messageData_of_def Let_def send_json_fields authenticate_frame_def
        send_message_frame_def example_env_def init_state_def alice_def bob_def)

lemma alice_moved_fields:
  "connectedClients alice_moved = [(alice, 1), (bob, 1)]"
  "userId alice_moved 0 = Some alice"
  "userId alice_moved 1 = Some bob"
  by (simp_all add: alice_moved_def onMessage_authenticate on_authenticate_def send_json_fields
        authenticate_frame_def example_env_def init_state_def alice_def bob_def)

lemma settled_at:
  assumes "i < length (awaiting s)" and "awaiting s ! i = (c, d, md)"
  shows "createMessage_settled e i s =
     (case createMessage e md of
        None \<Rightarrow> send_json e c error_frame
                  (s\<lparr> awaiting := take i (awaiting s) @ drop (Suc i) (awaiting s) \<rparr>)
      | Some m \<Rightarrow>
          send_json e c (message_sent_frame m)
            (case clients_get (connectedClients s) (jprop d ''receiverId'') of
               Some r \<Rightarrow> send_json e r (new_message_frame m)
                           (s\<lparr> awaiting := take i (awaiting s) @ drop (Suc i) (awaiting s) \<rparr>)
             | None \<Rightarrow> s\<lparr> awaiting := take i (awaiting s) @ drop (Suc i) (awaiting s) \<rparr>))"
  using assms by (simp add: createMessage_settled_def Let_def split: option.splits)

subsection \<open>Frames before authentication\<close>

text \<open>
  Claim C1, as the handler has it. On a socket where no \<^verbatim>\<open>authenticate\<close> frame has been
  accepted so far, a frame that parses to a value other than \<^verbatim>\<open>null\<close> and whose
  \<^verbatim>\<open>type\<close> is not \<^verbatim>\<open>authenticate\<close> is dropped: the whole state stays as it was, so
  nothing is sent to any socket, \<^verbatim>\<open>createMessage\<close> is not called, and neither the
  registry nor \<^verbatim>\<open>ws.userId\<close> changes.
\<close>

theorem no_frame_acted_on_before_authenticate:
  assumes "\<forall>x\<in>set evs. \<not> authenticates c x"
    and "d \<noteq> JNull"
    and "jprop d ''type'' \<noteq> Some (JStr ''authenticate'')"
  shows "onMessage e c (Some d) (run evs init_state) = run evs init_state"
proof -
  have "userId (run evs init_state) c = None"
    using assms(1) by (intro run_unauthenticated) (simp_all add: init_state_def)
  with assms(2,3) show ?thesis
    by (intro onMessage_ignored) simp_all
qed

text \<open>
  The claim as the specification words it also promises an error response. The
  handler has no branch for this case: a \<^verbatim>\<open>send_message\<close> frame on a fresh socket
  gets no frame back.
\<close>

theorem unauthenticated_send_message_counterexample:
  "sent (onMessage example_env 0 (Some (send_message_frame bob ''hi'')) init_state) = []"
  by (simp add: onMessage_def send_message_frame_def init_state_def)

text \<open>
  An instance: socket 1 had a token refused and sent a typing frame, while socket 0
  authenticated; a \<^verbatim>\<open>send_message\<close> frame on socket 1 changes nothing.
\<close>

theorem no_frame_acted_on_before_authenticate_witness:
  "onMessage example_env 1 (Some (send_message_frame alice ''hi''))
      (run [(example_env, Message 0 (Some (authenticate_frame ''token-alice''))),
            (example_env, Message 1 (Some (authenticate_frame ''expired''))),
            (example_env, Message 1 (Some (typing_frame ''typing_start'' alice)))] init_state)
   = run [(example_env, Message 0 (Some (authenticate_frame ''token-alice''))),
          (example_env, Message 1 (Some (authenticate_frame ''expired''))),
          (example_env, Message 1 (Some (typing_frame ''typing_start'' alice)))] init_state"
  by (rule no_frame_acted_on_before_authenticate)
     (simp_all add: send_message_frame_def authenticate_frame_def typing_frame_def example_env_def)

subsection \<open>Closing a socket\<close>

text \<open>
  Claim C2, as the handler has it. The close handler deletes the registry entry of
  \<^verbatim>\<open>ws.userId\<close> without looking at the socket the entry holds: whenever a socket whose
  \<^verbatim>\<open>ws.userId\<close> is \<open>u\<close> (not the empty string) closes, the registry afterwards is the
  one before without the entry of \<open>u\<close>, so a lookup of \<open>u\<close> gives nothing and every
  other lookup is as before. In particular, after identity \<open>v\<close> authenticated on socket
  \<open>a'\<close> and then on socket \<open>b\<close>, a lookup of \<open>v\<close> gives \<open>b\<close>; once \<open>a'\<close> closes, that
  entry is gone.
\<close>

theorem close_removes_entry_of_identity:
  "(bound_user (userId s a) = Some u \<longrightarrow>
      onClose a s = s\<lparr> connectedClients := AList.delete u (connectedClients s) \<rparr>
      \<and> clients_get (connectedClients (onClose a s)) (Some (JStr u)) = None
      \<and> (\<forall>k. k \<noteq> u \<longrightarrow>
            clients_get (connectedClients (onClose a s)) (Some (JStr k))
              = clients_get (connectedClients s) (Some (JStr k))))
   \<and> (jprop da ''type'' = Some (JStr ''authenticate'')
        \<and> verifyAccessToken ea (jprop da ''token'') = Some v
        \<and> jprop db ''type'' = Some (JStr ''authenticate'')
        \<and> verifyAccessToken eb (jprop db ''token'') = Some v
        \<and> v \<noteq> [] \<longrightarrow>
      clients_get (connectedClients (onMessage eb b (Some db) (onMessage ea a' (Some da) s0)))
           (Some (JStr v)) = Some b
      \<and> clients_get (connectedClients
            (onClose a' (onMessage eb b (Some db) (onMessage ea a' (Some da) s0))))
           (Some (JStr v)) = None)"
  by (simp add: onMessage_accepted onClose_def update_conv' delete_conv')

text \<open>
  The claim as the specification words it says that closing the older socket leaves
  the newer binding in place. Alice authenticates on socket 0, then on socket 1, and
  socket 0 closes: the lookup that gave socket 1 gives nothing afterwards.
\<close>

theorem close_of_older_socket_counterexample:
  "clients_get (connectedClients
      (run [(example_env, Message 0 (Some (authenticate_frame ''token-alice''))),
            (example_env, Message 1 (Some (authenticate_frame ''token-alice'')))] init_state))
      (Some (JStr alice)) = Some 1
   \<and> clients_get (connectedClients
      (run [(example_env, Message 0 (Some (authenticate_frame ''token-alice''))),
            (example_env, Message 1 (Some (authenticate_frame ''token-alice''))),
            (example_env, Close 0)] init_state))
      (Some (JStr alice)) = None"
  by (simp add: onMessage_accepted authenticate_frame_def example_env_def onClose_def
        init_state_def alice_def)

text \<open>
  An instance: the entry of Alice holds socket 1, which has since authenticated as
  Bob; socket 0, still carrying Alice's identity, closes and the entry of Alice is
  removed, the entry of Bob is not.
\<close>

theorem close_removes_entry_of_identity_witness:
  "clients_get (connectedClients alice_moved) (Some (JStr alice)) = Some 1
   \<and> userId alice_moved 1 = Some bob
   \<and> onClose 0 alice_moved = alice_moved\<lparr> connectedClients := [(bob, 1)] \<rparr>
   \<and> clients_get (connectedClients (onClose 0 alice_moved)) (Some (JStr alice)) = None
   \<and> clients_get (connectedClients (onClose 0 alice_moved)) (Some (JStr bob)) = Some 1
   \<and> clients_get (connectedClients
      (onMessage example_env 1 (Some (authenticate_frame ''token-alice''))
        (onMessage example_env 0 (Some (authenticate_frame ''token-alice'')) init_state)))
      (Some (JStr alice)) = Some 1
   \<and> clients_get (connectedClients
      (onClose 0 (onMessage example_env 1 (Some (authenticate_frame ''token-alice''))
        (onMessage example_env 0 (Some (authenticate_frame ''token-alice'')) init_state))))
      (Some (JStr alice)) = None"
proof -
  have bu: "bound_user (userId alice_moved 0) = Some alice"
    by (simp add: alice_moved_fields alice_def)
  have ne: "bob \<noteq> alice" "alice \<noteq> []"
    by (simp_all add: alice_def bob_def)
  have ty: "jprop (authenticate_frame ''token-alice'') ''type'' = Some (JStr ''authenticate'')"
    by (simp add: authenticate_frame_def)
  have ok: "verifyAccessToken example_env (jprop (authenticate_frame ''token-alice'') ''token'')
      = Some alice"
    by (simp add: authenticate_frame_def example_env_def)
  note th = close_removes_entry_of_identity[where s = alice_moved and a = 0 and u = alice
      and da = "authenticate_frame ''token-alice''" and db = "authenticate_frame ''token-alice''"
      and ea = example_env and eb = example_env and v = alice and a' = 0 and b = 1
      and ?s0.0 = init_state]
  from th bu have g1: "onClose 0 alice_moved
        = alice_moved\<lparr> connectedClients := AList.delete alice (connectedClients alice_moved) \<rparr>"
    and g2: "clients_get (connectedClients (onClose 0 alice_moved)) (Some (JStr alice)) = None"
    and g3: "clients_get (connectedClients (onClose 0 alice_moved)) (Some (JStr bob))
        = clients_get (connectedClients alice_moved) (Some (JStr bob))"
    using ne by blast+
  from th ty ok ne have sc: "clients_get (connectedClients
      (onMessage example_env 1 (Some (authenticate_frame ''token-alice''))
        (onMessage example_env 0 (Some (authenticate_frame ''token-alice'')) init_state)))
      (Some (JStr alice)) = Some 1
   \<and> clients_get (connectedClients
      (onClose 0 (onMessage example_env 1 (Some (authenticate_frame ''token-alice''))
        (onMessage example_env 0 (Some (authenticate_frame ''token-alice'')) init_state))))
      (Some (JStr alice)) = None"
    by blast
  have d: "AList.delete alice (connectedClients alice_moved) = [(bob, 1)]"
    by (simp add: alice_moved_fields ne)
  have b1: "clients_get (connectedClients alice_moved) (Some (JStr alice)) = Some 1"
    and b2: "clients_get (connectedClients alice_moved) (Some (JStr bob)) = Some 1"
    by (simp_all add: alice_moved_fields ne)
  have b3: "userId alice_moved 1 = Some bob"
    by (rule alice_moved_fields)
  from g1 have g1': "onClose 0 alice_moved = alice_moved\<lparr> connectedClients := [(bob, 1)] \<rparr>"
    by (simp only: d)
  from g3 have g3': "clients_get (connectedClients (onClose 0 alice_moved)) (Some (JStr bob)) = Some 1"
    by (simp only: b2)
  from b1 b3 g1' g2 g3' sc show ?thesis
    by blast
qed

subsection \<open>One entry for each identity\<close>

text \<open>
  Claim C3. In every state the server can reach, no identity occurs twice among the
  keys of the registry. When an \<^verbatim>\<open>authenticate\<close> frame for identity \<open>u\<close> is accepted on
  socket \<open>c\<close>, the registry afterwards has exactly one entry for \<open>u\<close> and a lookup of
  \<open>u\<close> gives \<open>c\<close>, whatever \<open>u\<close> was bound to before.
\<close>

theorem registry_one_entry_per_identity:
  assumes "jprop d ''type'' = Some (JStr ''authenticate'')"
    and "verifyAccessToken e (jprop d ''token'') = Some u"
  shows "distinct (map fst (connectedClients (run evs init_state)))
       \<and> distinct (map fst (connectedClients (onMessage e c (Some d) (run evs init_state))))
       \<and> length (filter (\<lambda>entry. fst entry = u)
                   (connectedClients (onMessage e c (Some d) (run evs init_state)))) = 1
       \<and> clients_get (connectedClients (onMessage e c (Some d) (run evs init_state)))
           (Some (JStr u)) = Some c"
proof -
  have d0: "distinct (map fst (connectedClients (run evs init_state)))"
    by (rule run_distinct) (simp add: init_state_def)
  then have d1: "distinct (map fst (connectedClients (onMessage e c (Some d) (run evs init_state))))"
    by (rule onMessage_distinct)
  have g: "map_of (connectedClients (onMessage e c (Some d) (run evs init_state))) u = Some c"
    using assms by (simp add: onMessage_accepted update_conv')
  from d0 d1 g count_key_distinct[OF d1 g] show ?thesis by simp
qed

text \<open>
  An instance: Alice is bound to socket 0 and authenticates again on socket 1.
\<close>

theorem registry_one_entry_per_identity_witness:
  "distinct (map fst (connectedClients
      (run [(example_env, Message 0 (Some (authenticate_frame ''token-alice'')))] init_state)))
   \<and> distinct (map fst (connectedClients
      (onMessage example_env 1 (Some (authenticate_frame ''token-alice''))
        (run [(example_env, Message 0 (Some (authenticate_frame ''token-alice'')))] init_state))))
   \<and> length (filter (\<lambda>entry. fst entry = alice) (connectedClients
      (onMessage example_env 1 (Some (authenticate_frame ''token-alice''))
        (run [(example_env, Message 0 (Some (authenticate_frame ''token-alice'')))] init_state)))) = 1
   \<and> clients_get (connectedClients
      (onMessage example_env 1 (Some (authenticate_frame ''token-alice''))
        (run [(example_env, Message 0 (Some (authenticate_frame ''token-alice'')))] init_state)))
      (Some (JStr alice)) = Some 1"
  by (rule registry_one_entry_per_identity)
     (simp_all add: authenticate_frame_def example_env_def)

subsection \<open>Routing a direct message\<close>

text \<open>
  Claim C4. A \<^verbatim>\<open>send_message\<close> frame \<open>d\<close> arrives on socket \<open>c\<close>, whose \<^verbatim>\<open>ws.userId\<close> is
  \<open>u\<close> (not the empty string).
  \<^item> If both \<^verbatim>\<open>ObjectId\<close> constructions succeed, \<^verbatim>\<open>createMessage\<close> is called once, with
    the sender taken from the socket, and the run is suspended: nothing is sent yet.
  \<^item> If one of them throws, the store is not called and the only push is the error
    frame to \<open>c\<close>.
  \<^item> When the promise of that run is fulfilled with the stored message \<open>m\<close>, in
    whatever state the server is by then, the pushes are exactly: one
    \<^verbatim>\<open>{type: 'new_message', data: m}\<close> to the socket that the registry of that moment
    holds for \<^verbatim>\<open>data.receiverId\<close>, if it holds one, and then one
    \<^verbatim>\<open>{type: 'message_sent', data: m}\<close> to \<open>c\<close>. The run is no longer suspended, so this
    happens once.
  \<^item> When the promise is rejected, the only push is the error frame to \<open>c\<close>.
\<close>

theorem send_message_routing:
  assumes "jprop d ''type'' = Some (JStr ''send_message'')"
    and "bound_user (userId s c) = Some u"
  shows
    "(newObjectId e (Some (JStr u)) = Some sid
        \<and> newObjectId e (jprop d ''receiverId'') = Some rid \<longrightarrow>
      onMessage e c (Some d) s =
        s\<lparr> createMessage_calls := createMessage_calls s @
              [\<lparr> senderId = sid, receiverId = rid,
                 conversationId = jprop d ''conversationId'',
                 content = jprop d ''content'',
                 msgType = (if truthy (jprop d ''messageType'')
                            then the (jprop d ''messageType'') else JStr ''text''),
                 createdAt = dateNow e \<rparr>],
           awaiting := awaiting s @
              [(c, d, \<lparr> senderId = sid, receiverId = rid,
                 conversationId = jprop d ''conversationId'',
                 content = jprop d ''content'',
                 msgType = (if truthy (jprop d ''messageType'')
                            then the (jprop d ''messageType'') else JStr ''text''),
                 createdAt = dateNow e \<rparr>)] \<rparr>)
   \<and> (newObjectId e (Some (JStr u)) = None
        \<or> newObjectId e (jprop d ''receiverId'') = None \<longrightarrow>
      onMessage e c (Some d) s =
        s\<lparr> stringified := stringified s @
              [JObj [(''type'', JStr ''error''), (''message'', JStr ''Invalid message format'')]],
           sent := sent s @
              [(c, JSON_stringify e
                 (JObj [(''type'', JStr ''error''),
                        (''message'', JStr ''Invalid message format'')]))] \<rparr>)
   \<and> (i < length (awaiting s') \<and> awaiting s' ! i = (c, d, md)
        \<and> createMessage e' md = Some m \<longrightarrow>
      createMessage_settled e' i s' =
        s'\<lparr> awaiting := take i (awaiting s') @ drop (Suc i) (awaiting s'),
            stringified := stringified s' @
              (case clients_get (connectedClients s') (jprop d ''receiverId'') of
                 Some r \<Rightarrow> [JObj [(''type'', JStr ''new_message''), (''data'', m)]]
               | None \<Rightarrow> []) @
              [JObj [(''type'', JStr ''message_sent''), (''data'', m)]],
            sent := sent s' @
              (case clients_get (connectedClients s') (jprop d ''receiverId'') of
                 Some r \<Rightarrow> [(r, JSON_stringify e'
                                 (JObj [(''type'', JStr ''new_message''), (''data'', m)]))]
               | None \<Rightarrow> []) @
              [(c, JSON_stringify e'
                 (JObj [(''type'', JStr ''message_sent''), (''data'', m)]))] \<rparr>)
   \<and> (i < length (awaiting s') \<and> awaiting s' ! i = (c, d, md)
        \<and> createMessage e' md = None \<longrightarrow>
      createMessage_settled e' i s' =
        s'\<lparr> awaiting := take i (awaiting s') @ drop (Suc i) (awaiting s'),
            stringified := stringified s' @
              [JObj [(''type'', JStr ''error''), (''message'', JStr ''Invalid message format'')]],
            sent := sent s' @
              [(c, JSON_stringify e'
                 (JObj [(''type'', JStr ''error''),
                        (''message'', JStr ''Invalid message format'')]))] \<rparr>)"
proof (intro conjI impI)
  assume "newObjectId e (Some (JStr u)) = Some sid
      \<and> newObjectId e (jprop d ''receiverId'') = Some rid"
  with assms show "onMessage e c (Some d) s =
        s\<lparr> createMessage_calls := createMessage_calls s @
              [\<lparr> senderId = sid, receiverId = rid,
                 conversationId = jprop d ''conversationId'',
                 content = jprop d ''content'',
                 msgType = (if truthy (jprop d ''messageType'')
                            then the (jprop d ''messageType'') else JStr ''text''),
                 createdAt = dateNow e \<rparr>],
           awaiting := awaiting s @
              [(c, d, \<lparr> senderId = sid, receiverId = rid,
                 conversationId = jprop d ''conversationId'',
                 content = jprop d ''content'',
                 msgType = (if truthy (jprop d ''messageType'')
                            then the (jprop d ''messageType'') else JStr ''text''),
                 createdAt = dateNow e \<rparr>)] \<rparr>"
    by (simp add: onMessage_send_message on_send_message_def messageData_of_def Let_def)
next
  assume "newObjectId e (Some (JStr u)) = None \<or> newObjectId e (jprop d ''receiverId'') = None"
  with assms show "onMessage e c (Some d) s =
        s\<lparr> stringified := stringified s @
              [JObj [(''type'', JStr ''error''), (''message'', JStr ''Invalid message format'')]],
           sent := sent s @
              [(c, JSON_stringify e
                 (JObj [(''type'', JStr ''error''),
                        (''message'', JStr ''Invalid message format'')]))] \<rparr>"
    by (auto simp: onMessage_send_message on_send_message_def error_frame_def send_json_def
          ws_send_def split: option.splits)
next
  assume "i < length (awaiting s') \<and> awaiting s' ! i = (c, d, md) \<and> createMessage e' md = Some m"
  then show "createMessage_settled e' i s' =
        s'\<lparr> awaiting := take i (awaiting s') @ drop (Suc i) (awaiting s'),
            stringified := stringified s' @
              (case clients_get (connectedClients s') (jprop d ''receiverId'') of
                 Some r \<Rightarrow> [JObj [(''type'', JStr ''new_message''), (''data'', m)]]
               | None \<Rightarrow> []) @
              [JObj [(''type'', JStr ''message_sent''), (''data'', m)]],
            sent := sent s' @
              (case clients_get (connectedClients s') (jprop d ''receiverId'') of
                 Some r \<Rightarrow> [(r, JSON_stringify e'
                                 (JObj [(''type'', JStr ''new_message''), (''data'', m)]))]
               | None \<Rightarrow> []) @
              [(c, JSON_stringify e'
                 (JObj [(''type'', JStr ''message_sent''), (''data'', m)]))] \<rparr>"
    by (simp add: settled_at new_message_frame_def message_sent_frame_def send_json_def
          ws_send_def split: option.splits)
next
  assume "i < length (awaiting s') \<and> awaiting s' ! i = (c, d, md) \<and> createMessage e' md = None"
  then show "createMessage_settled e' i s' =
        s'\<lparr> awaiting := take i (awaiting s') @ drop (Suc i) (awaiting s'),
            stringified := stringified s' @
              [JObj [(''type'', JStr ''error''), (''message'', JStr ''Invalid message format'')]],
            sent := sent s' @
              [(c, JSON_stringify e'
                 (JObj [(''type'', JStr ''error''),
                        (''message'', JStr ''Invalid message format'')]))] \<rparr>"
    by (simp add: settled_at error_frame_def send_json_def ws_send_def)
qed

text \<open>
  Instances: Alice, on socket 0, writes to Bob; a frame whose \<^verbatim>\<open>receiverId\<close> the
  \<^verbatim>\<open>ObjectId\<close> constructor refuses; the promise is fulfilled after Bob, who was not
  registered when the frame arrived, has authenticated on socket 1; the promise is
  rejected.
\<close>

theorem send_message_routing_witness:
  "onMessage example_env 0 (Some (send_message_frame bob ''hi'')) two_users =
     two_users\<lparr> createMessage_calls :=
         [\<lparr> senderId = alice, receiverId = bob, conversationId = Some (JStr ''conv-1''),
            content = Some (JStr ''hi''), msgType = JStr ''text'', createdAt = 0 \<rparr>],
       awaiting :=
         [(0, send_message_frame bob ''hi'',
           \<lparr> senderId = alice, receiverId = bob, conversationId = Some (JStr ''conv-1''),
             content = Some (JStr ''hi''), msgType = JStr ''text'', createdAt = 0 \<rparr>)] \<rparr>
   \<and> onMessage example_env 0 (Some (send_message_frame ''nobody'' ''hi'')) two_users =
     two_users\<lparr> stringified := stringified two_users @
         [JObj [(''type'', JStr ''error''), (''message'', JStr ''Invalid message format'')]],
       sent := sent two_users @
         [(0, ''{\"type\":\"error\",\"message\":\"Invalid message format\"}'')] \<rparr>
   \<and> createMessage_settled example_env 0 bob_joins_late =
     bob_joins_late\<lparr> awaiting := [],
       stringified := stringified bob_joins_late @
         [JObj [(''type'', JStr ''new_message''),
                (''data'', JObj [(''_id'', JStr ''65a1b2c3d4e5f60718293a4c''),
                                 (''senderId'', JStr ''507f1f77bcf86cd799439011''),
                                 (''receiverId'', JStr ''507f191e810c19729de860ea''),
                                 (''content'', JStr ''hi'')])],
          JObj [(''type'', JStr ''message_sent''),
                (''data'', JObj [(''_id'', JStr ''65a1b2c3d4e5f60718293a4c''),
                                 (''senderId'', JStr ''507f1f77bcf86cd799439011''),
                                 (''receiverId'', JStr ''507f191e810c19729de860ea''),
                                 (''content'', JStr ''hi'')])]],
       sent := sent bob_joins_late @
         [(1, ''{\"type\":\"new_message\",\"data\":{\"_id\":\"65a1b2c3d4e5f60718293a4c\",\"senderId\":\"507f1f77bcf86cd799439011\",\"receiverId\":\"507f191e810c19729de860ea\",\"content\":\"hi\"}}''),
          (0, ''{\"type\":\"message_sent\",\"data\":{\"_id\":\"65a1b2c3d4e5f60718293a4c\",\"senderId\":\"507f1f77bcf86cd799439011\",\"receiverId\":\"507f191e810c19729de860ea\",\"content\":\"hi\"}}'')] \<rparr>
   \<and> createMessage_settled failing_store 0 bob_joins_late =
     bob_joins_late\<lparr> awaiting := [],
       stringified := stringified bob_joins_late @
         [JObj [(''type'', JStr ''error''), (''message'', JStr ''Invalid message format'')]],
       sent := sent bob_joins_late @
         [(0, ''{\"type\":\"error\",\"message\":\"Invalid message format\"}'')] \<rparr>"
proof -
  let ?md = "\<lparr> senderId = alice, receiverId = bob, conversationId = Some (JStr ''conv-1''),
      content = Some (JStr ''hi''), msgType = JStr ''text'', createdAt = 0 \<rparr>"
  let ?m = "JObj [(''_id'', JStr ''65a1b2c3d4e5f60718293a4c''),
      (''senderId'', JStr ''507f1f77bcf86cd799439011''),
      (''receiverId'', JStr ''507f191e810c19729de860ea''),
      (''content'', JStr ''hi'')]"
  have ty: "jprop (send_message_frame r x) ''type'' = Some (JStr ''send_message'')" for r x
    by (simp add: send_message_frame_def)
  have bu: "bound_user (userId two_users 0) = Some alice"
    by (simp add: two_users_fields alice_def)
  have sid: "newObjectId example_env (Some (JStr alice)) = Some alice"
    by (simp add: example_env_def alice_def)
  have rid: "newObjectId example_env (jprop (send_message_frame bob ''hi'') ''receiverId'') = Some bob"
    by (simp add: example_env_def send_message_frame_def bob_def)
  have bad: "newObjectId example_env (jprop (send_message_frame ''nobody'' ''hi'') ''receiverId'') = None"
    by (simp add: example_env_def send_message_frame_def)
  have aw: "0 < length (awaiting bob_joins_late)"
      "awaiting bob_joins_late ! 0 = (0, send_message_frame bob ''hi'', ?md)"
    by (simp_all add: bob_joins_late_fields)
  have ok: "createMessage example_env ?md = Some ?m"
    by (simp add: example_env_def alice_def bob_def)
  have ko: "createMessage failing_store ?md = None"
    by (simp add: failing_store_def)
  have rc: "clients_get (connectedClients bob_joins_late)
        (jprop (send_message_frame bob ''hi'') ''receiverId'') = Some 1"
    by (simp add: bob_joins_late_fields send_message_frame_def alice_def bob_def)
  have bytes: "JSON_stringify example_env v = json_text v"
      "JSON_stringify failing_store v = json_text v" for v
    by (simp_all add: example_env_def failing_store_def)
  have p1: "onMessage example_env 0 (Some (send_message_frame bob ''hi'')) two_users =
     two_users\<lparr> createMessage_calls := [?md],
       awaiting := [(0, send_message_frame bob ''hi'', ?md)] \<rparr>"
    using send_message_routing[OF ty bu, where e = example_env and sid = alice and rid = bob
        and r1 = bob and x1 = "''hi''"] sid rid
    by (simp add: two_users_fields send_message_frame_def example_env_def)
  have p2: "onMessage example_env 0 (Some (send_message_frame ''nobody'' ''hi'')) two_users =
     two_users\<lparr> stringified := stringified two_users @
         [JObj [(''type'', JStr ''error''), (''message'', JStr ''Invalid message format'')]],
       sent := sent two_users @
         [(0, ''{\"type\":\"error\",\"message\":\"Invalid message format\"}'')] \<rparr>"
    using send_message_routing[OF ty bu, where e = example_env
        and r1 = "''nobody''" and x1 = "''hi''"] bad
    by (simp add: bytes quoted_def)
  have p3: "createMessage_settled example_env 0 bob_joins_late =
     bob_joins_late\<lparr> awaiting := [],
       stringified := stringified bob_joins_late @
         [JObj [(''type'', JStr ''new_message''), (''data'', ?m)],
          JObj [(''type'', JStr ''message_sent''), (''data'', ?m)]],
       sent := sent bob_joins_late @
         [(1, json_text (JObj [(''type'', JStr ''new_message''), (''data'', ?m)])),
          (0, json_text (JObj [(''type'', JStr ''message_sent''), (''data'', ?m)]))] \<rparr>"
    using send_message_routing[OF ty bu, where e' = example_env and i = 0 and s' = bob_joins_late
        and md = ?md and m = ?m and r1 = bob and x1 = "''hi''"] aw ok
    by (simp add: rc bytes bob_joins_late_fields(2))
  have p4: "createMessage_settled failing_store 0 bob_joins_late =
     bob_joins_late\<lparr> awaiting := [],
       stringified := stringified bob_joins_late @
         [JObj [(''type'', JStr ''error''), (''message'', JStr ''Invalid message format'')]],
       sent := sent bob_joins_late @
         [(0, ''{\"type\":\"error\",\"message\":\"Invalid message format\"}'')] \<rparr>"
    using send_message_routing[OF ty bu, where e' = failing_store and i = 0 and s' = bob_joins_late
        and md = ?md and r1 = bob and x1 = "''hi''"] aw ko
    by (simp add: bytes bob_joins_late_fields(2) quoted_def)
  have j1: "json_text (JObj [(''type'', JStr ''new_message''), (''data'', ?m)]) =
      ''{\"type\":\"new_message\",\"data\":{\"_id\":\"65a1b2c3d4e5f60718293a4c\",\"senderId\":\"507f1f77bcf86cd799439011\",\"receiverId\":\"507f191e810c19729de860ea\",\"content\":\"hi\"}}''"
    by (simp add: quoted_def)
  have j2: "json_text (JObj [(''type'', JStr ''message_sent''), (''data'', ?m)]) =
      ''{\"type\":\"message_sent\",\"data\":{\"_id\":\"65a1b2c3d4e5f60718293a4c\",\"senderId\":\"507f1f77bcf86cd799439011\",\"receiverId\":\"507f191e810c19729de860ea\",\"content\":\"hi\"}}''"
    by (simp add: quoted_def)
  from p3 have p3': "createMessage_settled example_env 0 bob_joins_late =
     bob_joins_late\<lparr> awaiting := [],
       stringified := stringified bob_joins_late @
         [JObj [(''type'', JStr ''new_message''), (''data'', ?m)],
          JObj [(''type'', JStr ''message_sent''), (''data'', ?m)]],
       sent := sent bob_joins_late @
         [(1, ''{\"type\":\"new_message\",\"data\":{\"_id\":\"65a1b2c3d4e5f60718293a4c\",\"senderId\":\"507f1f77bcf86cd799439011\",\"receiverId\":\"507f191e810c19729de860ea\",\"content\":\"hi\"}}''),
          (0, ''{\"type\":\"message_sent\",\"data\":{\"_id\":\"65a1b2c3d4e5f60718293a4c\",\"senderId\":\"507f1f77bcf86cd799439011\",\"receiverId\":\"507f191e810c19729de860ea\",\"content\":\"hi\"}}'')] \<rparr>"
    by (simp only: j1 j2)
  from p1 p2 p3' p4 show ?thesis
    by (intro conjI)
qed

text \<open>
  Claim C5 at a concrete input. Alice, authenticated, sends a \<^verbatim>\<open>send_message\<close> frame
  whose content is three spaces. The handler does not look at the content: it calls
  \<^verbatim>\<open>createMessage\<close> with the three spaces. (The handlers of \<^verbatim>\<open>POST /api/posts\<close> and
  \<^verbatim>\<open>POST /api/posts/:id/comments\<close> in the same file refuse a content that is empty
  after \<^verbatim>\<open>trim()\<close> before they call the store.)
\<close>

theorem whitespace_content_reaches_the_store:
  "map content (createMessage_calls
      (onMessage example_env 0 (Some (send_message_frame bob ''   '')) two_users))
     = [Some (JStr ''   '')]"
  by (simp add: onMessage_send_message[where u = alice] on_send_message_def Let_def
        two_users_fields send_json_fields messageData_of_def
        send_message_frame_def example_env_def alice_def bob_def)

subsection \<open>Broadcast\<close>

text \<open>
  Claim C6. A broadcast calls \<^verbatim>\<open>JSON.stringify\<close> once, on the object \<^verbatim>\<open>{type, data}\<close>,
  and pushes that one string to the socket of every registry entry whose
  \<^verbatim>\<open>readyState\<close> is \<^verbatim>\<open>OPEN\<close>, in the order of the registry; an entry whose socket is in
  another state is passed over, and nothing else of the state changes.
\<close>

theorem broadcast_pushes_one_payload:
  "broadcastToClients e ty d s =
     s\<lparr> stringified := stringified s @ [JObj [(''type'', JStr ty), (''data'', d)]],
        sent := sent s @ map (\<lambda>entry. (snd entry,
                                    JSON_stringify e (JObj [(''type'', JStr ty), (''data'', d)])))
                           (filter (\<lambda>entry. readyState s (snd entry) = OPEN) (connectedClients s)) \<rparr>"
  by (simp add: broadcastToClients_def broadcast_frame_def Let_def fold_push)

text \<open>
  An instance: Alice on socket 0, Bob on socket 1 which is closing; only socket 0 is
  pushed to.
\<close>

theorem broadcast_pushes_one_payload_witness:
  "broadcastToClients example_env ''new_post'' (JObj [(''content'', JStr ''hello'')])
       (step example_env (Transport 1 CLOSING) two_users)
   = (step example_env (Transport 1 CLOSING) two_users)
       \<lparr> stringified := stringified two_users
             @ [JObj [(''type'', JStr ''new_post''), (''data'', JObj [(''content'', JStr ''hello'')])]],
         sent := sent two_users
             @ [(0, ''{\"type\":\"new_post\",\"data\":{\"content\":\"hello\"}}'')] \<rparr>"
  using broadcast_pushes_one_payload[of example_env "''new_post''" "JObj [(''content'', JStr ''hello'')]"
     "step example_env (Transport 1 CLOSING) two_users"]
  by (simp add: two_users_fields example_env_def quoted_def)

subsection \<open>Frames of another type\<close>

text \<open>
  Claim C7, as the handler has it. A frame that parses to a value other than
  \<^verbatim>\<open>null\<close> and whose \<^verbatim>\<open>type\<close> is neither \<^verbatim>\<open>authenticate\<close> nor \<^verbatim>\<open>send_message\<close> is
  ignored without a response: the state, and with it the socket and what it may do
  next, is as before.
\<close>

theorem unrecognized_type_ignored:
  assumes "d \<noteq> JNull"
    and "jprop d ''type'' \<noteq> Some (JStr ''authenticate'')"
    and "jprop d ''type'' \<noteq> Some (JStr ''send_message'')"
  shows "onMessage e c (Some d) s = s"
  using assms by (intro onMessage_ignored) simp_all

text \<open>
  The claim as the specification words it promises one error frame. A frame of type
  \<^verbatim>\<open>bogus\<close> gets none.
\<close>

theorem unrecognized_type_counterexample:
  "sent (onMessage example_env 0 (Some (JObj [(''type'', JStr ''bogus'')])) init_state) = []"
  by (simp add: onMessage_def init_state_def)

theorem unrecognized_type_ignored_witness:
  "onMessage example_env 0 (Some (JObj [(''type'', JStr ''bogus'')])) two_users = two_users"
  by (rule unrecognized_type_ignored) simp_all

subsection \<open>A refused token\<close>

text \<open>
  Claim C8. When the verifier refuses the token of an \<^verbatim>\<open>authenticate\<close> frame on socket
  \<open>c\<close>, the frame \<^verbatim>\<open>{type: 'authentication_error', message: 'Invalid token'}\<close> is sent
  to \<open>c\<close> and nothing else changes: registry, \<^verbatim>\<open>ws.userId\<close> and ready states are as
  before. The socket can go on: a later \<^verbatim>\<open>authenticate\<close> frame with a token the verifier
  accepts binds it.
\<close>

theorem refused_token_keeps_state:
  assumes "jprop d ''type'' = Some (JStr ''authenticate'')"
    and "verifyAccessToken e (jprop d ''token'') = None"
  shows "onMessage e c (Some d) s =
           s\<lparr> stringified := stringified s @
                [JObj [(''type'', JStr ''authentication_error''), (''message'', JStr ''Invalid token'')]],
              sent := sent s @
                [(c, JSON_stringify e
                   (JObj [(''type'', JStr ''authentication_error''),
                          (''message'', JStr ''Invalid token'')]))] \<rparr>
       \<and> (jprop d' ''type'' = Some (JStr ''authenticate'')
            \<and> verifyAccessToken e' (jprop d' ''token'') = Some u \<longrightarrow>
          userId (onMessage e' c (Some d') (onMessage e c (Some d) s)) c = Some u
          \<and> clients_get (connectedClients (onMessage e' c (Some d') (onMessage e c (Some d) s)))
               (Some (JStr u)) = Some c)"
  using assms
  by (simp add: onMessage_authenticate on_authenticate_refused on_authenticate_accepted
        authentication_error_frame_def send_json_def ws_send_def update_conv')

theorem refused_token_keeps_state_witness:
  "onMessage example_env 1 (Some (authenticate_frame ''expired'')) init_state =
      init_state\<lparr> stringified :=
                      [JObj [(''type'', JStr ''authentication_error''),
                             (''message'', JStr ''Invalid token'')]],
                  sent := [(1, ''{\"type\":\"authentication_error\",\"message\":\"Invalid token\"}'')] \<rparr>
   \<and> userId (onMessage example_env 1 (Some (authenticate_frame ''token-bob''))
         (onMessage example_env 1 (Some (authenticate_frame ''expired'')) init_state)) 1 = Some bob
   \<and> clients_get (connectedClients (onMessage example_env 1 (Some (authenticate_frame ''token-bob''))
         (onMessage example_env 1 (Some (authenticate_frame ''expired'')) init_state)))
         (Some (JStr bob)) = Some 1"
proof -
  have ty: "jprop (authenticate_frame tok) ''type'' = Some (JStr ''authenticate'')" for tok
    by (simp add: authenticate_frame_def)
  have bad: "verifyAccessToken example_env (jprop (authenticate_frame ''expired'') ''token'') = None"
    by (simp add: authenticate_frame_def example_env_def)
  have good: "verifyAccessToken example_env (jprop (authenticate_frame ''token-bob'') ''token'') = Some bob"
    by (simp add: authenticate_frame_def example_env_def)
  have bytes: "JSON_stringify example_env
        (JObj [(''type'', JStr ''authentication_error''), (''message'', JStr ''Invalid token'')])
      = ''{\"type\":\"authentication_error\",\"message\":\"Invalid token\"}''"
    by (simp add: example_env_def quoted_def)
  have ini: "stringified init_state = []" "sent init_state = []"
    by (simp_all add: init_state_def)
  note th = refused_token_keeps_state[OF ty bad, where d' = "authenticate_frame ''token-bob''"
      and e' = example_env and u = bob and c = 1 and s = init_state]
  from th have a: "onMessage example_env 1 (Some (authenticate_frame ''expired'')) init_state =
      init_state\<lparr> stringified := stringified init_state @
                      [JObj [(''type'', JStr ''authentication_error''),
                             (''message'', JStr ''Invalid token'')]],
                  sent := sent init_state @ [(1, JSON_stringify example_env
                      (JObj [(''type'', JStr ''authentication_error''),
                             (''message'', JStr ''Invalid token'')]))] \<rparr>"
    by (rule conjunct1)
  from th ty good have b: "userId (onMessage example_env 1 (Some (authenticate_frame ''token-bob''))
         (onMessage example_env 1 (Some (authenticate_frame ''expired'')) init_state)) 1 = Some bob
   \<and> clients_get (connectedClients (onMessage example_env 1 (Some (authenticate_frame ''token-bob''))
         (onMessage example_env 1 (Some (authenticate_frame ''expired'')) init_state)))
         (Some (JStr bob)) = Some 1"
    by blast
  from a have a': "onMessage example_env 1 (Some (authenticate_frame ''expired'')) init_state =
      init_state\<lparr> stringified :=
                      [JObj [(''type'', JStr ''authentication_error''),
                             (''message'', JStr ''Invalid token'')]],
                  sent := [(1, ''{\"type\":\"authentication_error\",\"message\":\"Invalid token\"}'')] \<rparr>"
    by (simp only: bytes ini append_Nil)
  from a' b show ?thesis by (rule conjI)
qed

subsection \<open>Typing frames\<close>

text \<open>
  Claim C9 at a concrete input. Alice, authenticated on socket 0, sends
  \<^verbatim>\<open>typing_start\<close> and \<^verbatim>\<open>typing_stop\<close> frames for Bob, who is registered on socket 1. The
  handler has no branch for them: nothing is sent to Bob, the state is as before.
\<close>

theorem typing_frames_are_dropped:
  "onMessage example_env 0 (Some (typing_frame ''typing_start'' bob)) two_users = two_users
   \<and> onMessage example_env 0 (Some (typing_frame ''typing_stop'' bob)) two_users = two_users"
  by (simp add: onMessage_ignored typing_frame_def)

subsection \<open>A socket that authenticates as two identities\<close>

text \<open>
  Claim C10. Socket \<open>c\<close> authenticates as \<open>A\<close> and then as another identity \<open>B\<close> (not
  the empty string). Both identities then resolve to \<open>c\<close>. When \<open>c\<close> closes, the entry
  of \<open>B\<close> is removed and the entry of \<open>A\<close> stays, holding the closed socket.
\<close>

theorem second_identity_leaves_first_entry:
  assumes "jprop da ''type'' = Some (JStr ''authenticate'')"
    and "verifyAccessToken ea (jprop da ''token'') = Some A"
    and "jprop db ''type'' = Some (JStr ''authenticate'')"
    and "verifyAccessToken eb (jprop db ''token'') = Some B"
    and "A \<noteq> B" and "B \<noteq> []"
  shows "clients_get (connectedClients (onMessage eb c (Some db) (onMessage ea c (Some da) s)))
           (Some (JStr A)) = Some c
       \<and> clients_get (connectedClients (onMessage eb c (Some db) (onMessage ea c (Some da) s)))
           (Some (JStr B)) = Some c
       \<and> clients_get (connectedClients
            (step e (Close c) (onMessage eb c (Some db) (onMessage ea c (Some da) s))))
           (Some (JStr A)) = Some c
       \<and> clients_get (connectedClients
            (step e (Close c) (onMessage eb c (Some db) (onMessage ea c (Some da) s))))
           (Some (JStr B)) = None
       \<and> readyState (step e (Close c) (onMessage eb c (Some db) (onMessage ea c (Some da) s))) c
           = CLOSED"
  using assms by (simp add: onMessage_accepted onClose_def update_conv' delete_conv')

theorem second_identity_leaves_first_entry_witness:
  "clients_get (connectedClients (onMessage example_env 0 (Some (authenticate_frame ''token-bob''))
      (onMessage example_env 0 (Some (authenticate_frame ''token-alice'')) init_state)))
      (Some (JStr alice)) = Some 0
   \<and> clients_get (connectedClients (onMessage example_env 0 (Some (authenticate_frame ''token-bob''))
      (onMessage example_env 0 (Some (authenticate_frame ''token-alice'')) init_state)))
      (Some (JStr bob)) = Some 0
   \<and> clients_get (connectedClients (step example_env (Close 0)
      (onMessage example_env 0 (Some (authenticate_frame ''token-bob''))
        (onMessage example_env 0 (Some (authenticate_frame ''token-alice'')) init_state))))
      (Some (JStr alice)) = Some 0
   \<and> clients_get (connectedClients (step example_env (Close 0)
      (onMessage example_env 0 (Some (authenticate_frame ''token-bob''))
        (onMessage example_env 0 (Some (authenticate_frame ''token-alice'')) init_state))))
      (Some (JStr bob)) = None
   \<and> readyState (step example_env (Close 0)
      (onMessage example_env 0 (Some (authenticate_frame ''token-bob''))
        (onMessage example_env 0 (Some (authenticate_frame ''token-alice'')) init_state))) 0 = CLOSED"
  by (rule second_identity_leaves_first_entry)
     (simp_all add: authenticate_frame_def example_env_def alice_def bob_def)

end
